theory Spec2Isabelle
  imports Complex_Main
begin

section \<open>Values, errors and library operations\<close>

text \<open>
  The exchange of \<^verbatim>\<open>gbce/gbce.py\<close> computes with Python numbers. Prices, quantities and
  dividends are read here as real numbers: an \<^verbatim>\<open>int\<close> and a \<^verbatim>\<open>float\<close> are both a
  \<^typ>\<open>real\<close>, and the rounding and the range of a float are outside the model. A
  \<^verbatim>\<open>datetime\<close> is the number of microseconds since some fixed instant, an \<^typ>\<open>int\<close>;
  the range of \<^verbatim>\<open>datetime\<close> (years 1 to 9999) is outside the model as well.

  What the code raises is a value: a method returns \<open>Inl\<close> of the exception or \<open>Inr\<close>
  of its result.
\<close>

datatype py_error = ZeroDivisionError | TypeError

text \<open>
  What a query of the exchange can return: \<^verbatim>\<open>None\<close>, a number, or (from \<^verbatim>\<open>**\<close> with a
  negative base and a fractional exponent) a complex number, whose value is not modelled.
\<close>

datatype py_value = PyNone | PyNum real | PyComplex

text \<open>\<^verbatim>\<open>a / b\<close>: true division raises on a zero divisor, for ints and floats alike.\<close>

definition truediv :: "real \<Rightarrow> real \<Rightarrow> py_error + real" where
  "truediv a b = (if b = 0 then Inl ZeroDivisionError else Inr (a / b))"

text \<open>
  \<^verbatim>\<open>b ** e\<close> for a float exponent: a positive base gives the real power; a zero base
  gives 0.0 for a positive exponent, 1.0 for exponent zero, and raises for a negative
  one; a negative base gives a real number when the exponent is a whole number and a
  complex number otherwise.
\<close>

definition py_pow :: "real \<Rightarrow> real \<Rightarrow> py_error + py_value" where
  "py_pow b e =
     (if 0 < b then Inr (PyNum (b powr e))
      else if b = 0 then
        (if e < 0 then Inl ZeroDivisionError else Inr (PyNum (if e = 0 then 1 else 0)))
      else if frac e = 0 then Inr (PyNum (power_int b \<lfloor>e\<rfloor>))
      else Inr PyComplex)"

text \<open>\<^verbatim>\<open>str.upper()\<close>, on ASCII: the letters a to z are mapped to A to Z.\<close>

definition upper_char :: "char \<Rightarrow> char" where
  "upper_char c =
     (let n = (of_char c :: nat)
      in if 97 \<le> n \<and> n \<le> 122 then char_of (n - 32) else c)"

definition upper :: "string \<Rightarrow> string" where
  "upper s = map upper_char s"

text \<open>\<^verbatim>\<open>functools.reduce(mul, xs)\<close> with no initial value: it raises on an empty list.\<close>

fun reduce_mul :: "real list \<Rightarrow> py_error + real" where
  "reduce_mul [] = Inl TypeError"
| "reduce_mul (x # xs) = Inr (foldl (*) x xs)"

text \<open>
  \<^verbatim>\<open>itertools.groupby(xs, key)\<close>, each group made a list: one group for every maximal run
  of consecutive elements with the same key, in the order of the list.
\<close>

function groupby :: "('a \<Rightarrow> 'k) \<Rightarrow> 'a list \<Rightarrow> ('k \<times> 'a list) list" where
  "groupby key [] = []"
| "groupby key (x # xs) =
     (key x, x # takeWhile (\<lambda>y. key y = key x) xs)
       # groupby key (dropWhile (\<lambda>y. key y = key x) xs)"
  by pat_completeness auto
termination
  by (relation "measure (\<lambda>(key, xs). length xs)")
     (auto simp: length_dropWhile_le less_Suc_eq_le)

section \<open>Stocks\<close>

text \<open>
  The two subclasses of the abstract class \<^verbatim>\<open>Stock\<close>. \<^verbatim>\<open>last_dividend\<close> and
  \<^verbatim>\<open>fixed_dividend\<close> default to \<^verbatim>\<open>None\<close> in \<^verbatim>\<open>Stock.__init__\<close>.
\<close>

datatype stock_class = CommonTypeStock | PreferredTypeStock

record Stock =
  stock_class :: stock_class
  symbol :: string
  last_dividend :: "real option"
  par_value :: real
  fixed_dividend :: "real option"

definition Stock_init ::
  "stock_class \<Rightarrow> string \<Rightarrow> real \<Rightarrow> real option \<Rightarrow> real option \<Rightarrow> Stock" where
  "Stock_init cls symb par last_div fixed_div =
     \<lparr>stock_class = cls, symbol = upper symb, last_dividend = last_div,
      par_value = par, fixed_dividend = fixed_div\<rparr>"

text \<open>
  \<^verbatim>\<open>dividend_yield\<close>, dispatched on the class. Arithmetic on a dividend that is
  \<^verbatim>\<open>None\<close> raises \<^verbatim>\<open>TypeError\<close> before the division is tried.
\<close>

definition dividend_yield :: "Stock \<Rightarrow> real \<Rightarrow> py_error + real" where
  "dividend_yield s price =
     (case stock_class s of
        CommonTypeStock \<Rightarrow>
          (case last_dividend s of
             None \<Rightarrow> Inl TypeError
           | Some d \<Rightarrow> truediv d price)
      | PreferredTypeStock \<Rightarrow>
          (case fixed_dividend s of
             None \<Rightarrow> Inl TypeError
           | Some f \<Rightarrow> truediv (f * par_value s) price))"

definition pe_ratio :: "Stock \<Rightarrow> real \<Rightarrow> py_error + real" where
  "pe_ratio s price =
     (case dividend_yield s price of
        Inl e \<Rightarrow> Inl e
      | Inr y \<Rightarrow> truediv 1 y)"

section \<open>Trades\<close>

datatype TradeType = buy | sell

record Trade =
  stock :: Stock
  quantity :: real
  trade_type :: TradeType
  price :: real
  timestamp :: int

text \<open>
  \<^verbatim>\<open>Trade.__init__(self, stock, quantity, trade_type, price)\<close>. The first argument of the
  model is what \<^verbatim>\<open>datetime.utcnow()\<close> returns during the construction.
\<close>

definition Trade_init :: "int \<Rightarrow> Stock \<Rightarrow> real \<Rightarrow> TradeType \<Rightarrow> real \<Rightarrow> Trade" where
  "Trade_init now s q tt p =
     \<lparr>stock = s, quantity = q, trade_type = tt, price = p, timestamp = now\<rparr>"

text \<open>
  A call \<^verbatim>\<open>Trade(stock, quantity, trade_type, price, *extra)\<close>: the constructor takes four
  arguments, and Python raises \<^verbatim>\<open>TypeError\<close> when the call passes more.
\<close>

definition Trade_call ::
  "int \<Rightarrow> Stock \<Rightarrow> real \<Rightarrow> TradeType \<Rightarrow> real \<Rightarrow> int list \<Rightarrow> py_error + Trade" where
  "Trade_call now s q tt p extra =
     (if extra = [] then Inr (Trade_init now s q tt p) else Inl TypeError)"

section \<open>The exchange\<close>

record StockExchange =
  trades :: "Trade list"

definition StockExchange_init :: StockExchange where
  "StockExchange_init = \<lparr>trades = []\<rparr>"

definition record_trade :: "StockExchange \<Rightarrow> Trade \<Rightarrow> StockExchange" where
  "record_trade ex trade = ex\<lparr>trades := trades ex @ [trade]\<rparr>"

text \<open>\<^verbatim>\<open>timedelta(minutes=duration)\<close>, in microseconds.\<close>

definition timedelta_minutes :: "int \<Rightarrow> int" where
  "timedelta_minutes duration = duration * 60000000"

text \<open>
  The list comprehension of \<^verbatim>\<open>volume_weight_stock_price\<close>. Its condition calls
  \<^verbatim>\<open>datetime.utcnow()\<close> once for every trade whose symbol matches (\<^verbatim>\<open>and\<close> does not
  evaluate its right side otherwise): \<open>clk k\<close> is what the \<open>k\<close>-th such call returns.
\<close>

fun recent_trades :: "(nat \<Rightarrow> int) \<Rightarrow> nat \<Rightarrow> string \<Rightarrow> int \<Rightarrow> Trade list \<Rightarrow> Trade list" where
  "recent_trades clk k symb duration [] = []"
| "recent_trades clk k symb duration (trade # rest) =
     (if symbol (stock trade) = upper symb then
        (if timestamp trade \<ge> clk k - timedelta_minutes duration
         then trade # recent_trades clk (Suc k) symb duration rest
         else recent_trades clk (Suc k) symb duration rest)
      else recent_trades clk k symb duration rest)"

definition vwap :: "Trade list \<Rightarrow> py_error + real" where
  "vwap ts =
     truediv (sum_list (map (\<lambda>trade. price trade * quantity trade) ts))
             (sum_list (map quantity ts))"

definition volume_weight_stock_price ::
  "(nat \<Rightarrow> int) \<Rightarrow> StockExchange \<Rightarrow> string \<Rightarrow> int \<Rightarrow> py_error + py_value" where
  "volume_weight_stock_price clk ex symb duration =
     (let ts = recent_trades clk 0 symb duration (trades ex)
      in if ts = [] then Inr PyNone
         else (case vwap ts of Inl e \<Rightarrow> Inl e | Inr v \<Rightarrow> Inr (PyNum v)))"

text \<open>
  \<^verbatim>\<open>[self.vwap(list(trades)) for symbol, trades in stock_groups]\<close>: the first group
  whose \<^verbatim>\<open>vwap\<close> raises ends the comprehension.
\<close>

fun group_prices :: "(string \<times> Trade list) list \<Rightarrow> py_error + real list" where
  "group_prices [] = Inr []"
| "group_prices ((symb, ts) # rest) =
     (case vwap ts of
        Inl e \<Rightarrow> Inl e
      | Inr p \<Rightarrow>
          (case group_prices rest of
             Inl e \<Rightarrow> Inl e
           | Inr ps \<Rightarrow> Inr (p # ps)))"

definition stock_groups :: "StockExchange \<Rightarrow> (string \<times> Trade list) list" where
  "stock_groups ex = groupby (\<lambda>trade. symbol (stock trade)) (trades ex)"

definition all_share_index :: "StockExchange \<Rightarrow> py_error + py_value" where
  "all_share_index ex =
     (if trades ex = [] then Inr PyNone
      else
        (case group_prices (stock_groups ex) of
           Inl e \<Rightarrow> Inl e
         | Inr prices \<Rightarrow>
             (case reduce_mul prices of
                Inl e \<Rightarrow> Inl e
              | Inr prd \<Rightarrow>
                  (case truediv 1 (real (length prices)) of
                     Inl e \<Rightarrow> Inl e
                   | Inr e \<Rightarrow> py_pow prd e))))"

section \<open>The stocks of the test suite\<close>

text \<open>The five stocks that \<^verbatim>\<open>test_exercise\<close> of \<^verbatim>\<open>tests/test_gbce.py\<close> builds.\<close>

definition stock_TEA :: Stock where
  "stock_TEA = Stock_init CommonTypeStock ''TEA'' 100 (Some 0) None"

definition stock_POP :: Stock where
  "stock_POP = Stock_init CommonTypeStock ''POP'' 100 (Some 8) None"

definition stock_ALE :: Stock where
  "stock_ALE = Stock_init CommonTypeStock ''ALE'' 60 (Some 23) None"

definition stock_GIN :: Stock where
  "stock_GIN = Stock_init PreferredTypeStock ''GIN'' 100 (Some 8) (Some (2 / 100))"

definition stock_JOE :: Stock where
  "stock_JOE = Stock_init CommonTypeStock ''JOE'' 250 (Some 13) None"

section \<open>Logs used as examples\<close>

text \<open>One trade of quantity zero, recorded on a new exchange.\<close>

definition zero_quantity_exchange :: StockExchange where
  "zero_quantity_exchange =
     record_trade StockExchange_init (Trade_init 0 stock_POP 0 buy 100)"

text \<open>
  The two trades of \<^verbatim>\<open>test_volume_weight_stock_price\<close>, after a trade of the same stock
  made long before and a trade of another stock.
\<close>

definition window_exchange :: StockExchange where
  "window_exchange =
     \<lparr>trades = [Trade_init (- 400000000) stock_POP 1000 buy 1,
                Trade_init 0 stock_TEA 100 buy 110,
                Trade_init 10 stock_POP 15 buy 100,
                Trade_init 20 stock_POP 25 sell 60]\<rparr>"

text \<open>
  A log in which the trades of TEA are not adjacent: a trade of POP lies between them.
\<close>

definition interleaved_exchange :: StockExchange where
  "interleaved_exchange =
     foldl record_trade StockExchange_init
       [Trade_init 10 stock_TEA 5 buy 3,
        Trade_init 20 stock_POP 1 buy 1,
        Trade_init 30 stock_TEA 1 buy 9]"

text \<open>The five trades of \<^verbatim>\<open>test_all_share_index\<close>.\<close>

definition index_exchange :: StockExchange where
  "index_exchange =
     \<lparr>trades = [Trade_init 1 stock_TEA 15 buy 100,
                Trade_init 2 stock_POP 25 buy 10,
                Trade_init 3 stock_POP 25 buy 60,
                Trade_init 4 stock_GIN 25 buy 110,
                Trade_init 5 stock_JOE 25 buy 250]\<rparr>"

text \<open>A log with two stocks, the second traded with quantity zero only.\<close>

definition zero_group_exchange :: StockExchange where
  "zero_group_exchange =
     \<lparr>trades = [Trade_init 1 stock_TEA 100 buy 110,
                Trade_init 2 stock_GIN 0 buy 80]\<rparr>"

section \<open>What the specification selects and groups\<close>

text \<open>
  The trades that the specification of \<^verbatim>\<open>volumeWeightedPrice\<close> selects: those whose
  symbol matches the queried one without regard to case and whose timestamp lies in the
  interval from \<open>now\<close> minus the window up to \<open>now\<close>.
\<close>

definition window_trades_spec :: "int \<Rightarrow> string \<Rightarrow> int \<Rightarrow> Trade list \<Rightarrow> Trade list" where
  "window_trades_spec now symb window ts =
     filter (\<lambda>trade. upper (symbol (stock trade)) = upper symb
                   \<and> now - timedelta_minutes window \<le> timestamp trade
                   \<and> timestamp trade \<le> now) ts"

text \<open>Two logs that differ at most in the side of their trades.\<close>

definition same_except_side :: "Trade list \<Rightarrow> Trade list \<Rightarrow> bool" where
  "same_except_side xs ys =
     list_all2 (\<lambda>a b. b = a\<lparr>trade_type := trade_type b\<rparr>) xs ys"

definition erase_side :: "Trade \<Rightarrow> Trade" where
  "erase_side trade = trade\<lparr>trade_type := buy\<rparr>"

text \<open>
  The grouping of the specification of \<^verbatim>\<open>allShareIndex\<close>: the distinct symbols of the
  log, each listed once in the order of its first trade; for a symbol, all trades of
  the log with that symbol, wherever they stand; for a group, the sum of price times
  quantity divided by the sum of the quantities; and for the log, the product of these
  prices raised to the power one over the number of distinct symbols.
\<close>

fun first_occurrences :: "'a list \<Rightarrow> 'a list" where
  "first_occurrences [] = []"
| "first_occurrences (x # xs) = x # filter (\<lambda>y. y \<noteq> x) (first_occurrences xs)"

definition symbols_spec :: "Trade list \<Rightarrow> string list" where
  "symbols_spec ts = first_occurrences (map (\<lambda>trade. symbol (stock trade)) ts)"

definition symbol_trades_spec :: "string \<Rightarrow> Trade list \<Rightarrow> Trade list" where
  "symbol_trades_spec s ts = filter (\<lambda>trade. symbol (stock trade) = s) ts"

definition vwap_spec :: "Trade list \<Rightarrow> real" where
  "vwap_spec ts =
     sum_list (map (\<lambda>trade. price trade * quantity trade) ts) / sum_list (map quantity ts)"

definition all_share_index_spec :: "Trade list \<Rightarrow> py_value" where
  "all_share_index_spec ts =
     (if ts = [] then PyNone
      else PyNum (prod_list (map (\<lambda>s. vwap_spec (symbol_trades_spec s ts)) (symbols_spec ts))
                  powr (1 / real (length (symbols_spec ts)))))"

text \<open>
  The trades of every symbol stand together in the log: once adjacent repetitions are
  removed, no symbol is left twice.
\<close>

definition symbols_adjacent :: "Trade list \<Rightarrow> bool" where
  "symbols_adjacent ts = distinct (remdups_adj (map (\<lambda>trade. symbol (stock trade)) ts))"

section \<open>Evaluating the examples\<close>

lemma upper_examples:
  "upper ''pop'' = ''POP''" "upper ''POP'' = ''POP''" "upper ''TEA'' = ''TEA''"
  "upper ''ALE'' = ''ALE''" "upper ''GIN'' = ''GIN''" "upper ''JOE'' = ''JOE''"
  by code_simp+

lemmas example_stocks =
  stock_TEA_def stock_POP_def stock_ALE_def stock_GIN_def stock_JOE_def Stock_init_def
  upper_examples

section \<open>Stored symbols\<close>

text \<open>
  \<^verbatim>\<open>Stock.__init__\<close> stores the symbol in upper case, and upper case is left as it is by
  \<^verbatim>\<open>upper\<close>: the symbol of a stock built by the constructor matches a queried symbol
  exactly when the two are equal without regard to case.
\<close>

lemma upper_char_idem: "upper_char (upper_char c) = upper_char c"
proof -
  have "of_char (char_of (of_char c - (32::nat)) :: char) = ((of_char c - 32) mod 256 :: nat)"
    by (simp only: of_char_of)
  then show ?thesis
    by (auto simp: upper_char_def Let_def)
qed

lemma upper_idem: "upper (upper s) = upper s"
  by (simp add: upper_def upper_char_idem)

lemma symbol_Stock_init_upper:
  "upper (symbol (Stock_init cls name par ld fd)) = symbol (Stock_init cls name par ld fd)"
  by (simp add: Stock_init_def upper_idem)

lemma symbol_Stock_init_matches:
  "symbol (Stock_init cls name par ld fd) = upper symb \<longleftrightarrow> upper name = upper symb"
  by (simp add: Stock_init_def)

section \<open>Dividend yield and P/E ratio\<close>

text \<open>
  Claim C4. At every price \<open>p > 0\<close>, the dividend yield of a common stock is its last
  dividend divided by \<open>p\<close>, and the dividend yield of a preferred stock is its fixed
  dividend rate times its par value, divided by \<open>p\<close>.
\<close>

theorem dividend_yield_positive_price:
  assumes "0 < p"
  shows "(stock_class s = CommonTypeStock \<and> last_dividend s = Some d
            \<longrightarrow> dividend_yield s p = Inr (d / p))
       \<and> (stock_class s = PreferredTypeStock \<and> fixed_dividend s = Some f
            \<longrightarrow> dividend_yield s p = Inr (f * par_value s / p))"
  using assms by (simp add: dividend_yield_def truediv_def)

theorem dividend_yield_positive_price_witness:
  "(0::real) < 100
   \<and> dividend_yield stock_ALE 100 = Inr (23 / 100)
   \<and> dividend_yield stock_GIN 100 = Inr (2 / 100)"
  using dividend_yield_positive_price [of 100 stock_ALE 23]
        dividend_yield_positive_price [of 100 stock_GIN _ "2 / 100"]
  by (simp add: example_stocks)

text \<open>
  Claim C5 says that the dividend yield fails at every price \<open>p \<le> 0\<close>. The code has no
  check of the price: only the division by zero fails, and at a negative price the
  quotient is returned.
\<close>

theorem dividend_yield_negative_price_counterexample:
  "dividend_yield stock_ALE (- 100) = Inr (- (23 / 100))
   \<and> dividend_yield stock_GIN (- 100) = Inr (- (2 / 100))"
  by (simp add: example_stocks dividend_yield_def truediv_def)

text \<open>
  Claim C5, amended. At the price 0 the dividend yield of a common and of a preferred
  stock fails with \<^verbatim>\<open>ZeroDivisionError\<close>; at a price \<open>p < 0\<close> it is the same quotient as
  at a positive price.
\<close>

theorem dividend_yield_nonpositive_price:
  assumes "p \<le> 0"
  shows "(stock_class s = CommonTypeStock \<and> last_dividend s = Some d
            \<longrightarrow> dividend_yield s p =
                  (if p = 0 then Inl ZeroDivisionError else Inr (d / p)))
       \<and> (stock_class s = PreferredTypeStock \<and> fixed_dividend s = Some f
            \<longrightarrow> dividend_yield s p =
                  (if p = 0 then Inl ZeroDivisionError else Inr (f * par_value s / p)))"
  by (simp add: dividend_yield_def truediv_def)

theorem dividend_yield_nonpositive_price_witness:
  "(0::real) \<le> 0 \<and> (- 50::real) \<le> 0
   \<and> dividend_yield stock_ALE 0 = Inl ZeroDivisionError
   \<and> dividend_yield stock_GIN 0 = Inl ZeroDivisionError
   \<and> dividend_yield stock_ALE (- 50) = Inr (- (23 / 50))
   \<and> dividend_yield stock_GIN (- 50) = Inr (- (2 / 50))"
  using dividend_yield_nonpositive_price [of 0 stock_ALE 23]
        dividend_yield_nonpositive_price [of 0 stock_GIN _ "2 / 100"]
        dividend_yield_nonpositive_price [of "- 50" stock_ALE 23]
        dividend_yield_nonpositive_price [of "- 50" stock_GIN _ "2 / 100"]
  by (simp add: example_stocks)

text \<open>
  Claim C6. The P/E ratio is the reciprocal of the dividend yield wherever the yield is
  a non-zero number; it fails with \<^verbatim>\<open>ZeroDivisionError\<close> where the yield is zero, and
  with the yield's own error where the yield fails. This holds at every price, the
  prices \<open>p > 0\<close> among them.
\<close>

theorem pe_ratio_reciprocal:
  "(dividend_yield s p = Inr y \<and> y \<noteq> 0 \<longrightarrow> pe_ratio s p = Inr (1 / y))
   \<and> (dividend_yield s p = Inr 0 \<longrightarrow> pe_ratio s p = Inl ZeroDivisionError)
   \<and> (dividend_yield s p = Inl e \<longrightarrow> pe_ratio s p = Inl e)"
  by (simp add: pe_ratio_def truediv_def)

theorem pe_ratio_reciprocal_witness:
  "dividend_yield stock_ALE 100 = Inr (23 / 100)
   \<and> pe_ratio stock_ALE 100 = Inr (100 / 23)
   \<and> dividend_yield stock_TEA 100 = Inr 0
   \<and> pe_ratio stock_TEA 100 = Inl ZeroDivisionError
   \<and> dividend_yield (Stock_init CommonTypeStock ''TEA'' 100 None None) 100 = Inl TypeError
   \<and> pe_ratio (Stock_init CommonTypeStock ''TEA'' 100 None None) 100 = Inl TypeError"
proof -
  have a: "dividend_yield stock_ALE 100 = Inr (23 / 100)"
    by (simp add: example_stocks dividend_yield_def truediv_def)
  have t: "dividend_yield stock_TEA 100 = Inr 0"
    by (simp add: example_stocks dividend_yield_def truediv_def)
  have n: "dividend_yield (Stock_init CommonTypeStock ''TEA'' 100 None None) 100
             = Inl TypeError"
    by (simp add: Stock_init_def dividend_yield_def)
  show ?thesis
    using a t n
      pe_ratio_reciprocal [of stock_ALE 100 "23 / 100"]
      pe_ratio_reciprocal [of stock_TEA 100]
      pe_ratio_reciprocal
        [of "Stock_init CommonTypeStock ''TEA'' 100 None None" 100 _ TypeError]
    by simp
qed

section \<open>Constructing and recording trades\<close>

text \<open>
  Claim C8 says that the constructor of a trade takes an optional timestamp and stores
  it. \<^verbatim>\<open>Trade.__init__\<close> has no such parameter: a call that passes a timestamp after the
  price raises \<^verbatim>\<open>TypeError\<close> and builds no trade.
\<close>

theorem Trade_call_timestamp_counterexample:
  "Trade_call 100 stock_ALE 20 buy 100 [50] = Inl TypeError"
  by (simp add: Trade_call_def)

text \<open>
  Claim C8, amended. The timestamp of a trade is the current time at its construction,
  always: the constructor takes the stock, the quantity, the side and the price, and a
  call with a further argument is refused.
\<close>

theorem Trade_timestamp_is_now:
  "timestamp (Trade_init now s q tt p) = now
   \<and> Trade_call now s q tt p [] = Inr (Trade_init now s q tt p)
   \<and> Trade_call now s q tt p (ts # extra) = Inl TypeError"
  by (simp add: Trade_call_def Trade_init_def)

lemma trades_foldl_record_trade:
  "trades (foldl record_trade ex ts) = trades ex @ ts"
  by (induction ts arbitrary: ex) (simp_all add: record_trade_def)

text \<open>
  Claim C7. \<^verbatim>\<open>record_trade\<close> appends and does nothing else. One call leaves the
  entries already recorded as they are and in their order, and adds the trade at the
  end; after the calls for the trades \<open>ts\<close>, in this order, the log is the old log
  followed by \<open>ts\<close>, so on a new exchange it is \<open>ts\<close> itself and has as many entries as
  there were calls. \<^verbatim>\<open>record_trade\<close> has no failing branch: it is a total function.
\<close>

theorem record_trade_append_only:
  "trades (record_trade ex t) = trades ex @ [t]
   \<and> trades (foldl record_trade ex ts) = trades ex @ ts
   \<and> trades (foldl record_trade StockExchange_init ts) = ts
   \<and> length (trades (foldl record_trade StockExchange_init ts)) = length ts"
  by (simp add: trades_foldl_record_trade record_trade_def StockExchange_init_def)

section \<open>The volume weighted price of a stock\<close>

text \<open>
  With a clock that reads \<open>now\<close> at every call, the comprehension is a filter: a trade is
  selected when its stored symbol is the queried symbol in upper case and its timestamp
  is not before \<open>now\<close> minus the window.
\<close>

lemma recent_trades_constant_clock:
  "\<forall>k. clk k = now \<Longrightarrow>
   recent_trades clk k symb d ts =
     filter (\<lambda>trade. symbol (stock trade) = upper symb
                   \<and> now - timedelta_minutes d \<le> timestamp trade) ts"
  by (induction ts arbitrary: k) simp_all

text \<open>
  Claim C10. A query whose selected trades are not empty and have total quantity zero
  raises \<^verbatim>\<open>ZeroDivisionError\<close>. Such a log is reachable: \<^verbatim>\<open>Trade.__init__\<close> checks
  nothing, so a trade of quantity zero can be built and recorded on a new exchange, and
  a query for its symbol at that time, with a window that is not negative, raises.
\<close>

theorem volume_weight_stock_price_zero_quantity:
  "(recent_trades clk 0 symb d (trades ex) \<noteq> []
      \<and> sum_list (map quantity (recent_trades clk 0 symb d (trades ex))) = 0
      \<longrightarrow> volume_weight_stock_price clk ex symb d = Inl ZeroDivisionError)
   \<and> (0 \<le> w \<longrightarrow>
        volume_weight_stock_price (\<lambda>k. now)
          (record_trade StockExchange_init
             (Trade_init now (Stock_init cls name par ld fd) 0 tt p)) name w
          = Inl ZeroDivisionError)"
  by (simp add: volume_weight_stock_price_def vwap_def truediv_def record_trade_def
        StockExchange_init_def Trade_init_def Stock_init_def timedelta_minutes_def)

theorem volume_weight_stock_price_zero_quantity_witness:
  "recent_trades (\<lambda>k. 0) 0 ''POP'' 5 (trades zero_quantity_exchange)
     = [Trade_init 0 stock_POP 0 buy 100]
   \<and> sum_list (map quantity (recent_trades (\<lambda>k. 0) 0 ''POP'' 5 (trades zero_quantity_exchange))) = 0
   \<and> volume_weight_stock_price (\<lambda>k. 0) zero_quantity_exchange ''POP'' 5 = Inl ZeroDivisionError
   \<and> (0::int) \<le> 15
   \<and> volume_weight_stock_price (\<lambda>k. 7)
          (record_trade StockExchange_init
             (Trade_init 7 (Stock_init CommonTypeStock ''pop'' 100 (Some 8) None) 0 sell 60)) ''pop'' 15
          = Inl ZeroDivisionError"
proof -
  have sel: "recent_trades (\<lambda>k. 0) 0 ''POP'' 5 (trades zero_quantity_exchange)
     = [Trade_init 0 stock_POP 0 buy 100]"
    by (simp add: zero_quantity_exchange_def record_trade_def StockExchange_init_def
          Trade_init_def example_stocks timedelta_minutes_def)
  have q: "sum_list (map quantity [Trade_init 0 stock_POP 0 buy 100]) = 0"
    by (simp add: Trade_init_def)
  show ?thesis
    using sel q
      volume_weight_stock_price_zero_quantity
        [where clk = "\<lambda>k. 0" and symb = "''POP''" and d = 5
           and ex = zero_quantity_exchange and w = 15 and now = 7
           and cls = CommonTypeStock and name = "''pop''" and par = 100
           and ld = "Some 8" and fd = None and tt = sell and p = 60]
    by simp
qed

text \<open>
  Claim C2 says that a query with matching trades in the window returns the quotient of
  the two sums. On the log with one trade of quantity zero the query for its symbol
  returns nothing: it raises \<^verbatim>\<open>ZeroDivisionError\<close>.
\<close>

theorem volume_weight_stock_price_window_counterexample:
  "volume_weight_stock_price (\<lambda>k. 0) zero_quantity_exchange ''POP'' 5 = Inl ZeroDivisionError"
  by (simp add: volume_weight_stock_price_def vwap_def truediv_def
        zero_quantity_exchange_def record_trade_def StockExchange_init_def
        Trade_init_def example_stocks timedelta_minutes_def)

text \<open>
  Claim C2, amended. Let the clock read \<open>now\<close> at every call during the query. The
  trades selected are those whose stored symbol is the queried symbol in upper case and
  whose timestamp is at least \<open>now\<close> minus the window. The query returns \<^verbatim>\<open>None\<close> when no
  trade is selected, raises \<^verbatim>\<open>ZeroDivisionError\<close> when the selected trades have total
  quantity zero, and returns the sum of price times quantity divided by the sum of the
  quantities, over exactly the selected trades, otherwise. On a log whose symbols are
  stored in upper case (as \<^verbatim>\<open>Stock.__init__\<close> stores them) and whose timestamps are not
  after \<open>now\<close>, the selected trades are exactly those of the specification: the symbol
  matches without regard to case and the timestamp lies in the interval from \<open>now\<close>
  minus the window up to \<open>now\<close>.
\<close>

theorem volume_weight_stock_price_window:
  assumes "\<forall>k. clk k = now"
  shows "volume_weight_stock_price clk ex symb window =
           (let sel = filter (\<lambda>trade. symbol (stock trade) = upper symb
                                  \<and> now - timedelta_minutes window \<le> timestamp trade)
                             (trades ex)
            in if sel = [] then Inr PyNone
               else if sum_list (map quantity sel) = 0 then Inl ZeroDivisionError
               else Inr (PyNum (sum_list (map (\<lambda>trade. price trade * quantity trade) sel)
                                / sum_list (map quantity sel))))
       \<and> ((\<forall>trade \<in> set (trades ex).
              timestamp trade \<le> now \<and> upper (symbol (stock trade)) = symbol (stock trade))
            \<longrightarrow> filter (\<lambda>trade. symbol (stock trade) = upper symb
                                  \<and> now - timedelta_minutes window \<le> timestamp trade)
                       (trades ex)
                = window_trades_spec now symb window (trades ex))"
proof -
  have "recent_trades clk 0 symb window (trades ex) =
          filter (\<lambda>trade. symbol (stock trade) = upper symb
                        \<and> now - timedelta_minutes window \<le> timestamp trade) (trades ex)"
    using assms by (rule recent_trades_constant_clock)
  then have first: "volume_weight_stock_price clk ex symb window =
           (let sel = filter (\<lambda>trade. symbol (stock trade) = upper symb
                                  \<and> now - timedelta_minutes window \<le> timestamp trade)
                             (trades ex)
            in if sel = [] then Inr PyNone
               else if sum_list (map quantity sel) = 0 then Inl ZeroDivisionError
               else Inr (PyNum (sum_list (map (\<lambda>trade. price trade * quantity trade) sel)
                                / sum_list (map quantity sel))))"
    by (simp add: volume_weight_stock_price_def vwap_def truediv_def Let_def)
  have second: "(\<forall>trade \<in> set (trades ex).
              timestamp trade \<le> now \<and> upper (symbol (stock trade)) = symbol (stock trade))
            \<longrightarrow> filter (\<lambda>trade. symbol (stock trade) = upper symb
                                  \<and> now - timedelta_minutes window \<le> timestamp trade)
                       (trades ex)
                = window_trades_spec now symb window (trades ex)"
    unfolding window_trades_spec_def
    by (auto intro!: filter_cong)
  from first second show ?thesis by blast
qed

theorem volume_weight_stock_price_window_witness:
  "(\<forall>k. (\<lambda>k. 30) k = (30::int))
   \<and> list_all (\<lambda>trade. timestamp trade \<le> 30
                      \<and> upper (symbol (stock trade)) = symbol (stock trade))
        (trades window_exchange)
   \<and> window_trades_spec 30 ''pop'' 5 (trades window_exchange)
        = [Trade_init 10 stock_POP 15 buy 100, Trade_init 20 stock_POP 25 sell 60]
   \<and> volume_weight_stock_price (\<lambda>k. 30) window_exchange ''pop'' 5 = Inr (PyNum 75)
   \<and> volume_weight_stock_price (\<lambda>k. 30) window_exchange ''ALE'' 5 = Inr PyNone"
proof -
  have sel: "filter (\<lambda>trade. symbol (stock trade) = upper ''pop''
                          \<and> 30 - timedelta_minutes 5 \<le> timestamp trade)
               (trades window_exchange)
             = [Trade_init 10 stock_POP 15 buy 100, Trade_init 20 stock_POP 25 sell 60]"
    by (simp add: window_exchange_def Trade_init_def example_stocks
          timedelta_minutes_def)
  have none: "filter (\<lambda>trade. symbol (stock trade) = upper ''ALE''
                          \<and> 30 - timedelta_minutes 5 \<le> timestamp trade)
               (trades window_exchange) = []"
    by (simp add: window_exchange_def Trade_init_def example_stocks
          timedelta_minutes_def)
  have wf: "\<forall>trade \<in> set (trades window_exchange).
              timestamp trade \<le> 30 \<and> upper (symbol (stock trade)) = symbol (stock trade)"
    by (simp add: window_exchange_def Trade_init_def example_stocks)
  have sums: "sum_list (map quantity [Trade_init 10 stock_POP 15 buy 100, Trade_init 20 stock_POP 25 sell 60]) = 40"
    "sum_list (map (\<lambda>trade. price trade * quantity trade) [Trade_init 10 stock_POP 15 buy 100, Trade_init 20 stock_POP 25 sell 60]) = 3000"
    by (simp_all add: Trade_init_def)
  show ?thesis
    using sel none wf sums
      volume_weight_stock_price_window
        [where clk = "\<lambda>k. 30" and now = 30 and ex = window_exchange
           and symb = "''pop''" and window = 5]
      volume_weight_stock_price_window
        [where clk = "\<lambda>k. 30" and now = 30 and ex = window_exchange
           and symb = "''ALE''" and window = 5]
    by (simp add: list_all_iff)
qed

section \<open>The side of a trade\<close>

lemma same_except_side_erase:
  "same_except_side xs ys \<Longrightarrow> map erase_side xs = map erase_side ys"
  unfolding same_except_side_def
proof (induction rule: list_all2_induct)
  case Nil
  show ?case by simp
next
  case (Cons a xs b ys)
  from Cons.hyps(1) have "erase_side b = erase_side a"
    by (cases a, cases b) (simp add: erase_side_def)
  with Cons.IH show ?case by simp
qed

lemma vwap_erase_side: "vwap (map erase_side ts) = vwap ts"
  by (simp add: vwap_def erase_side_def o_def)

lemma recent_trades_erase_side:
  "recent_trades clk k symb d (map erase_side ts) = map erase_side (recent_trades clk k symb d ts)"
  by (induction ts arbitrary: k) (simp_all add: erase_side_def)

lemma groupby_map:
  "groupby key (map f xs) = map (\<lambda>(k, g). (k, map f g)) (groupby (\<lambda>x. key (f x)) xs)"
proof (induction "\<lambda>x. key (f x)" xs rule: groupby.induct)
  case 1
  show ?case by simp
next
  case (2 x xs)
  then show ?case
    by (simp add: takeWhile_map dropWhile_map o_def)
qed

lemma group_prices_erase_side:
  "group_prices (map (\<lambda>(k, g). (k, map erase_side g)) gs) = group_prices gs"
  by (induction gs rule: group_prices.induct)
     (simp_all add: vwap_erase_side split: sum.splits)

lemma volume_weight_stock_price_erase_side:
  "volume_weight_stock_price clk \<lparr>trades = map erase_side ts\<rparr> symb d
     = volume_weight_stock_price clk \<lparr>trades = ts\<rparr> symb d"
  by (simp add: volume_weight_stock_price_def recent_trades_erase_side vwap_erase_side)

lemma all_share_index_erase_side:
  "all_share_index \<lparr>trades = map erase_side ts\<rparr> = all_share_index \<lparr>trades = ts\<rparr>"
proof -
  have "(\<lambda>x. symbol (stock (erase_side x))) = (\<lambda>x. symbol (stock x))"
    by (simp add: erase_side_def)
  then have "group_prices (stock_groups \<lparr>trades = map erase_side ts\<rparr>)
        = group_prices (stock_groups \<lparr>trades = ts\<rparr>)"
    by (simp add: stock_groups_def groupby_map [where key = "\<lambda>trade. symbol (stock trade)"]
          group_prices_erase_side)
  then show ?thesis
    by (simp add: all_share_index_def)
qed

text \<open>
  Claim C9. Two logs that differ at most in the side of their trades give the same
  result, a value or an error, for \<^verbatim>\<open>vwap\<close>, for \<^verbatim>\<open>volume_weight_stock_price\<close> with the
  same clock, symbol and window, and for \<^verbatim>\<open>all_share_index\<close>.
\<close>

theorem analytics_ignore_trade_type:
  assumes "same_except_side xs ys"
  shows "vwap xs = vwap ys
       \<and> volume_weight_stock_price clk \<lparr>trades = xs\<rparr> symb d
           = volume_weight_stock_price clk \<lparr>trades = ys\<rparr> symb d
       \<and> all_share_index \<lparr>trades = xs\<rparr> = all_share_index \<lparr>trades = ys\<rparr>"
proof -
  from assms have e: "map erase_side xs = map erase_side ys"
    by (rule same_except_side_erase)
  have "vwap xs = vwap (map erase_side xs)"
    by (simp add: vwap_erase_side)
  also have "\<dots> = vwap ys"
    by (simp add: e vwap_erase_side)
  finally have v: "vwap xs = vwap ys" .
  have p: "volume_weight_stock_price clk \<lparr>trades = xs\<rparr> symb d
           = volume_weight_stock_price clk \<lparr>trades = ys\<rparr> symb d"
    using volume_weight_stock_price_erase_side [of clk xs symb d]
          volume_weight_stock_price_erase_side [of clk ys symb d] e
    by simp
  have a: "all_share_index \<lparr>trades = xs\<rparr> = all_share_index \<lparr>trades = ys\<rparr>"
    using all_share_index_erase_side [of xs] all_share_index_erase_side [of ys] e
    by simp
  from v p a show ?thesis by simp
qed


theorem analytics_ignore_trade_type_witness:
  "same_except_side
     [Trade_init 10 stock_POP 15 buy 100, Trade_init 20 stock_POP 25 buy 60]
     [Trade_init 10 stock_POP 15 sell 100, Trade_init 20 stock_POP 25 buy 60]
   \<and> vwap [Trade_init 10 stock_POP 15 sell 100, Trade_init 20 stock_POP 25 buy 60]
       = vwap [Trade_init 10 stock_POP 15 buy 100, Trade_init 20 stock_POP 25 buy 60]
   \<and> volume_weight_stock_price (\<lambda>k. 30)
         \<lparr>trades = [Trade_init 10 stock_POP 15 sell 100, Trade_init 20 stock_POP 25 buy 60]\<rparr>
         ''POP'' 5
       = volume_weight_stock_price (\<lambda>k. 30)
           \<lparr>trades = [Trade_init 10 stock_POP 15 buy 100, Trade_init 20 stock_POP 25 buy 60]\<rparr>
           ''POP'' 5
   \<and> all_share_index
         \<lparr>trades = [Trade_init 10 stock_POP 15 sell 100, Trade_init 20 stock_POP 25 buy 60]\<rparr>
       = all_share_index
           \<lparr>trades = [Trade_init 10 stock_POP 15 buy 100, Trade_init 20 stock_POP 25 buy 60]\<rparr>"
proof -
  have same: "same_except_side
     [Trade_init 10 stock_POP 15 buy 100, Trade_init 20 stock_POP 25 buy 60]
     [Trade_init 10 stock_POP 15 sell 100, Trade_init 20 stock_POP 25 buy 60]"
    by (simp add: same_except_side_def Trade_init_def)
  show ?thesis
    using same
      analytics_ignore_trade_type
        [where xs = "[Trade_init 10 stock_POP 15 buy 100, Trade_init 20 stock_POP 25 buy 60]"
           and ys = "[Trade_init 10 stock_POP 15 sell 100, Trade_init 20 stock_POP 25 buy 60]"
           and clk = "\<lambda>k. 30" and symb = "''POP''" and d = 5]
    by simp
qed

section \<open>The all share index\<close>

subsection \<open>Runs of equal keys and groups by key\<close>

lemma set_first_occurrences: "set (first_occurrences xs) = set xs"
  by (induction xs) auto

lemma distinct_first_occurrences: "distinct (first_occurrences xs)"
  by (induction xs) (auto simp: set_first_occurrences)

lemma length_first_occurrences: "length (first_occurrences xs) = card (set xs)"
  using distinct_card [OF distinct_first_occurrences, of xs]
  by (simp add: set_first_occurrences)

lemma remdups_adj_Cons_dropWhile:
  "remdups_adj (a # ys) = a # remdups_adj (dropWhile (\<lambda>y. y = a) ys)"
  by (induction ys) auto

lemma filter_takeWhile_dropWhile:
  "filter Q xs = filter Q (takeWhile P xs) @ filter Q (dropWhile P xs)"
  by (metis filter_append takeWhile_dropWhile_id)



lemma filter_swap: "filter P (filter Q zs) = filter Q (filter P zs)"
  by (induction zs) simp_all

lemma filter_drop_absent: "\<not> P x \<Longrightarrow> filter P (filter (\<lambda>y. y \<noteq> x) zs) = filter P zs"
  by (induction zs) auto

lemma filter_first_occurrences:
  "filter P (first_occurrences xs) = first_occurrences (filter P xs)"
proof (induction xs)
  case Nil
  show ?case by simp
next
  case (Cons x xs)
  show ?case
  proof (cases "P x")
    case True
    have "filter P (filter (\<lambda>y. y \<noteq> x) (first_occurrences xs))
            = filter (\<lambda>y. y \<noteq> x) (filter P (first_occurrences xs))"
      by (rule filter_swap)
    with True Cons.IH show ?thesis by simp
  next
    case False
    then have "filter P (filter (\<lambda>y. y \<noteq> x) (first_occurrences xs))
            = filter P (first_occurrences xs)"
      by (rule filter_drop_absent)
    with False Cons.IH show ?thesis by simp
  qed
qed

lemma remdups_adj_map_Cons:
  "remdups_adj (map key (x # xs))
     = key x # remdups_adj (map key (dropWhile (\<lambda>y. key y = key x) xs))"
proof -
  have "remdups_adj (key x # map key xs)
          = key x # remdups_adj (dropWhile (\<lambda>k. k = key x) (map key xs))"
    by (rule remdups_adj_Cons_dropWhile)
  also have "dropWhile (\<lambda>k. k = key x) (map key xs)
          = map key (dropWhile (\<lambda>y. key y = key x) xs)"
    by (simp only: dropWhile_map o_def)
  finally show ?thesis by (simp only: list.map)
qed



lemma filter_neq_map:
  "filter (\<lambda>k. k \<noteq> a) (map key xs) = map key (filter (\<lambda>y. key y \<noteq> a) xs)"
  by (induction xs) simp_all

lemma groupby_adjacent:
  "distinct (remdups_adj (map key xs)) \<Longrightarrow>
   groupby key xs =
     map (\<lambda>k. (k, filter (\<lambda>x. key x = k) xs)) (first_occurrences (map key xs))"
proof (induction key xs rule: groupby.induct)
  case (1 key)
  show ?case by simp
next
  case (2 key x xs)
  let ?P = "\<lambda>y. key y = key x"
  let ?tw = "takeWhile ?P xs"
  let ?dw = "dropWhile ?P xs"
  from "2.prems" have "distinct (key x # remdups_adj (map key ?dw))"
    by (simp only: remdups_adj_map_Cons)
  then have fresh: "key x \<notin> key ` set ?dw"
    and dist: "distinct (remdups_adj (map key ?dw))"
    by simp_all
  have parts: "filter Q xs = filter Q ?tw @ filter Q ?dw" for Q
    by (rule filter_takeWhile_dropWhile [where P = "?P"])
  have tw_none: "filter Q ?tw = []" if "\<And>y. Q y \<Longrightarrow> key y \<noteq> key x" for Q
  proof (rule filter_False, rule ballI)
    fix y assume "y \<in> set ?tw"
    then have "key y = key x" by (rule set_takeWhileD [THEN conjunct2])
    with that show "\<not> Q y" by blast
  qed
  have dw_neq: "key y \<noteq> key x" if "y \<in> set ?dw" for y
    using that fresh by (metis imageI)
  have keys: "filter (\<lambda>k. k \<noteq> key x) (map key xs) = map key ?dw"
  proof -
    have k1: "filter (\<lambda>k. k \<noteq> key x) (map key xs)
            = map key (filter (\<lambda>y. key y \<noteq> key x) xs)"
      by (rule filter_neq_map)
    have k2: "filter (\<lambda>y. key y \<noteq> key x) ?tw = []"
      by (rule tw_none)
    have k3: "filter (\<lambda>y. key y \<noteq> key x) ?dw = ?dw"
      by (rule filter_True) (blast dest: dw_neq)
    show ?thesis
      by (simp only: k1 parts [of "\<lambda>y. key y \<noteq> key x"] k2 k3 append_Nil)
  qed
  have syms: "first_occurrences (key x # map key xs) = key x # first_occurrences (map key ?dw)"
    by (simp only: first_occurrences.simps filter_first_occurrences keys)
  have own: "filter ?P (x # xs) = x # ?tw"
  proof -
    have o1: "filter ?P ?tw = ?tw"
      by (rule filter_True) (blast dest: set_takeWhileD)
    have o2: "filter ?P ?dw = []"
      by (rule filter_False) (blast dest: dw_neq)
    have "filter ?P xs = ?tw"
      by (simp only: parts [of ?P] o1 o2 append_Nil2)
    then show ?thesis by simp
  qed
  have others: "filter (\<lambda>y. key y = k) (x # xs) = filter (\<lambda>y. key y = k) ?dw"
    if "k \<in> set (first_occurrences (map key ?dw))" for k
  proof -
    from that have "k \<in> key ` set ?dw"
      by (simp only: set_first_occurrences set_map)
    with fresh have neq: "k \<noteq> key x" by metis
    have t1: "filter (\<lambda>y. key y = k) ?tw = []"
      by (rule tw_none) (use neq in blast)
    have "filter (\<lambda>y. key y = k) xs = filter (\<lambda>y. key y = k) ?dw"
      by (simp only: parts [of "\<lambda>y. key y = k"] t1 append_Nil)
    then show ?thesis using neq by simp
  qed
  have "groupby key (x # xs) = (key x, x # ?tw) # groupby key ?dw"
    by simp
  also have "groupby key ?dw
      = map (\<lambda>k. (k, filter (\<lambda>y. key y = k) ?dw)) (first_occurrences (map key ?dw))"
    using dist by (rule "2.IH")
  also have "\<dots> = map (\<lambda>k. (k, filter (\<lambda>y. key y = k) (x # xs)))
                      (first_occurrences (map key ?dw))"
    using others by (auto intro!: map_cong)
  finally show ?case
    by (simp only: list.map syms own)
qed

subsection \<open>The index of a log with adjacent symbols\<close>

lemma stock_groups_adjacent:
  "symbols_adjacent (trades ex) \<Longrightarrow>
   stock_groups ex = map (\<lambda>s. (s, symbol_trades_spec s (trades ex))) (symbols_spec (trades ex))"
  unfolding symbols_adjacent_def stock_groups_def symbols_spec_def symbol_trades_spec_def
  by (rule groupby_adjacent)

lemma vwap_cases:
  "vwap ts = (if sum_list (map quantity ts) = 0 then Inl ZeroDivisionError else Inr (vwap_spec ts))"
  by (simp add: vwap_def truediv_def vwap_spec_def)

lemma group_prices_map:
  "group_prices (map (\<lambda>s. (s, g s)) ss) =
     (if list_ex (\<lambda>s. sum_list (map quantity (g s)) = 0) ss then Inl ZeroDivisionError
      else Inr (map (\<lambda>s. vwap_spec (g s)) ss))"
  by (induction ss) (simp_all add: vwap_cases)

lemma foldl_mult: "foldl (*) (x::real) xs = x * prod_list xs"
  by (induction xs arbitrary: x) (simp_all add: mult.assoc)

lemma reduce_mul_prod_list: "ps \<noteq> [] \<Longrightarrow> reduce_mul ps = Inr (prod_list ps)"
  by (cases ps) (simp_all add: foldl_mult)

lemma py_pow_nonneg: "0 \<le> b \<Longrightarrow> 0 < e \<Longrightarrow> py_pow b e = Inr (PyNum (b powr e))"
  by (simp add: py_pow_def)

lemma symbols_spec_empty: "symbols_spec ts = [] \<longleftrightarrow> ts = []"
  by (cases ts) (simp_all add: symbols_spec_def)

lemma length_symbols_spec:
  "length (symbols_spec ts) = card ((\<lambda>trade. symbol (stock trade)) ` set ts)"
  by (simp add: symbols_spec_def length_first_occurrences)

lemma powr_27: "(27::real) powr (1 / 3) = 3"
proof -
  have "(27::real) = 3 powr 3" by simp
  then have "(27::real) powr (1 / 3) = (3 powr 3) powr (1 / 3)" by simp
  also have "\<dots> = 3 powr (3 * (1 / 3))" by (rule powr_powr)
  also have "\<dots> = 3" by simp
  finally show ?thesis .
qed

lemma powr_4: "(4::real) powr (1 / 2) = 2"
proof -
  have "(4::real) = 2 powr 2" by simp
  then have "(4::real) powr (1 / 2) = (2 powr 2) powr (1 / 2)" by simp
  also have "\<dots> = 2 powr (2 * (1 / 2))" by (rule powr_powr)
  also have "\<dots> = 2" by simp
  finally show ?thesis .
qed

lemma trades_interleaved:
  "trades interleaved_exchange =
     [Trade_init 10 stock_TEA 5 buy 3,
      Trade_init 20 stock_POP 1 buy 1,
      Trade_init 30 stock_TEA 1 buy 9]"
  by (simp add: interleaved_exchange_def record_trade_def StockExchange_init_def)

text \<open>
  Claim C1. The claim asks for one group for every symbol. \<^verbatim>\<open>itertools.groupby\<close> is
  applied to the log as it stands, not sorted by symbol, so it makes a group for every
  run: in the log TEA, POP, TEA the symbol TEA gets two groups with the prices 3 and 9,
  where the price over all trades of TEA is 4, and the index is the cube root of 27
  where the specification gives the square root of 4.
\<close>

theorem stock_groups_split_interleaved_symbol:
  "map fst (stock_groups interleaved_exchange) = [''TEA'', ''POP'', ''TEA'']
   \<and> group_prices (stock_groups interleaved_exchange) = Inr [3, 1, 9]
   \<and> symbols_spec (trades interleaved_exchange) = [''TEA'', ''POP'']
   \<and> vwap (symbol_trades_spec ''TEA'' (trades interleaved_exchange)) = Inr 4
   \<and> all_share_index interleaved_exchange = Inr (PyNum 3)
   \<and> all_share_index_spec (trades interleaved_exchange) = PyNum 2"
proof -
  have g: "stock_groups interleaved_exchange =
             [(''TEA'', [Trade_init 10 stock_TEA 5 buy 3]),
              (''POP'', [Trade_init 20 stock_POP 1 buy 1]),
              (''TEA'', [Trade_init 30 stock_TEA 1 buy 9])]"
    by (simp add: stock_groups_def trades_interleaved Trade_init_def example_stocks)
  have p: "group_prices (stock_groups interleaved_exchange) = Inr [3, 1, 9]"
    by (simp add: g vwap_def truediv_def Trade_init_def)
  have s: "symbols_spec (trades interleaved_exchange) = [''TEA'', ''POP'']"
    by (simp add: symbols_spec_def trades_interleaved Trade_init_def example_stocks)
  have t: "symbol_trades_spec ''TEA'' (trades interleaved_exchange)
             = [Trade_init 10 stock_TEA 5 buy 3, Trade_init 30 stock_TEA 1 buy 9]"
    by (simp add: symbol_trades_spec_def trades_interleaved Trade_init_def example_stocks)
  have q: "symbol_trades_spec ''POP'' (trades interleaved_exchange)
             = [Trade_init 20 stock_POP 1 buy 1]"
    by (simp add: symbol_trades_spec_def trades_interleaved Trade_init_def example_stocks)
  have v: "vwap (symbol_trades_spec ''TEA'' (trades interleaved_exchange)) = Inr 4"
    by (simp add: t vwap_def truediv_def Trade_init_def)
  have a: "all_share_index interleaved_exchange = Inr (PyNum 3)"
    by (simp add: all_share_index_def p trades_interleaved truediv_def py_pow_def powr_27)
  have b: "all_share_index_spec (trades interleaved_exchange) = PyNum 2"
    by (simp add: all_share_index_spec_def s t q vwap_spec_def Trade_init_def powr_4)
       (simp add: trades_interleaved)
  from g p s v a b show ?thesis by simp
qed

text \<open>
  Claim C3 says that the index of every log that is not empty is the geometric mean of
  the prices of its symbols. On a log with a stock whose trades have total quantity
  zero the query returns nothing: it raises \<^verbatim>\<open>ZeroDivisionError\<close>.
\<close>

theorem all_share_index_zero_quantity_counterexample:
  "trades zero_group_exchange \<noteq> []
   \<and> all_share_index zero_group_exchange = Inl ZeroDivisionError"
  by (simp add: all_share_index_def stock_groups_def zero_group_exchange_def
        Trade_init_def example_stocks vwap_def truediv_def)

text \<open>
  Claim C3, amended. The index of the empty log is \<^verbatim>\<open>None\<close>. For a log that is not
  empty and in which the trades of every symbol stand together: the query raises
  \<^verbatim>\<open>ZeroDivisionError\<close> when the trades of some symbol have total quantity zero;
  otherwise, when the product of the prices of the symbols is not negative, it returns
  that product raised to the power one over \<open>n\<close>, where each price is taken over all
  trades of its symbol and \<open>n\<close> is the number of distinct symbols of the log. Logs in
  which the trades of a symbol are apart are left out here; claim C1 is about them.
\<close>

theorem all_share_index_adjacent_symbols:
  "(trades ex = [] \<longrightarrow> all_share_index ex = Inr PyNone)
   \<and> (trades ex \<noteq> [] \<and> symbols_adjacent (trades ex)
        \<and> list_ex (\<lambda>s. sum_list (map quantity (symbol_trades_spec s (trades ex))) = 0)
             (symbols_spec (trades ex))
       \<longrightarrow> all_share_index ex = Inl ZeroDivisionError)
   \<and> (trades ex \<noteq> [] \<and> symbols_adjacent (trades ex)
        \<and> \<not> list_ex (\<lambda>s. sum_list (map quantity (symbol_trades_spec s (trades ex))) = 0)
               (symbols_spec (trades ex))
        \<and> 0 \<le> prod_list (map (\<lambda>s. vwap_spec (symbol_trades_spec s (trades ex)))
                         (symbols_spec (trades ex)))
       \<longrightarrow> all_share_index ex = Inr (all_share_index_spec (trades ex)))
   \<and> length (symbols_spec (trades ex))
       = card ((\<lambda>trade. symbol (stock trade)) ` set (trades ex))"
proof -
  let ?ts = "trades ex"
  let ?zero = "list_ex (\<lambda>s. sum_list (map quantity (symbol_trades_spec s ?ts)) = 0)
                 (symbols_spec ?ts)"
  let ?prices = "map (\<lambda>s. vwap_spec (symbol_trades_spec s ?ts)) (symbols_spec ?ts)"
  have empty: "all_share_index ex = Inr PyNone" if "?ts = []"
    using that by (simp add: all_share_index_def)
  have prices: "group_prices (stock_groups ex) =
                  (if ?zero then Inl ZeroDivisionError else Inr ?prices)"
    if "symbols_adjacent ?ts"
    by (simp only: stock_groups_adjacent [OF that] group_prices_map)
  have raises: "all_share_index ex = Inl ZeroDivisionError"
    if "?ts \<noteq> []" "symbols_adjacent ?ts" "?zero"
    using that by (simp add: all_share_index_def prices)
  have mean: "all_share_index ex = Inr (all_share_index_spec ?ts)"
    if ne: "?ts \<noteq> []" and adj: "symbols_adjacent ?ts" and nz: "\<not> ?zero"
      and pos: "0 \<le> prod_list ?prices"
  proof -
    from ne have syms: "symbols_spec ?ts \<noteq> []"
      by (simp add: symbols_spec_empty)
    then have n: "0 < real (length (symbols_spec ?ts))" by simp
    have gp: "group_prices (stock_groups ex) = Inr ?prices"
      using prices [OF adj] nz by simp
    have red: "reduce_mul ?prices = Inr (prod_list ?prices)"
      using syms by (intro reduce_mul_prod_list) simp
    have pw: "py_pow (prod_list ?prices) (1 / real (length (symbols_spec ?ts)))
                = Inr (PyNum (prod_list ?prices powr (1 / real (length (symbols_spec ?ts)))))"
      using pos n by (intro py_pow_nonneg) simp_all
    show ?thesis
      using ne syms
      by (simp add: all_share_index_def gp red truediv_def pw all_share_index_spec_def)
  qed
  from empty raises mean length_symbols_spec [of ?ts] show ?thesis by blast
qed

theorem all_share_index_adjacent_symbols_witness:
  "all_share_index StockExchange_init = Inr PyNone
   \<and> trades zero_group_exchange \<noteq> []
   \<and> symbols_adjacent (trades zero_group_exchange)
   \<and> list_ex (\<lambda>s. sum_list (map quantity (symbol_trades_spec s (trades zero_group_exchange))) = 0)
        (symbols_spec (trades zero_group_exchange))
   \<and> all_share_index zero_group_exchange = Inl ZeroDivisionError
   \<and> trades index_exchange \<noteq> []
   \<and> symbols_adjacent (trades index_exchange)
   \<and> symbols_spec (trades index_exchange) = [''TEA'', ''POP'', ''GIN'', ''JOE'']
   \<and> map (\<lambda>s. vwap_spec (symbol_trades_spec s (trades index_exchange)))
         (symbols_spec (trades index_exchange)) = [100, 35, 110, 250]
   \<and> all_share_index index_exchange = Inr (PyNum (96250000 powr (1 / 4)))
   \<and> length (symbols_spec (trades index_exchange)) = 4"
proof -
  have e: "trades StockExchange_init = []"
    by (simp add: StockExchange_init_def)
  have z1: "trades zero_group_exchange \<noteq> []"
    by (simp add: zero_group_exchange_def)
  have z2: "symbols_adjacent (trades zero_group_exchange)"
    by (simp add: symbols_adjacent_def zero_group_exchange_def Trade_init_def example_stocks)
  have z3: "list_ex (\<lambda>s. sum_list (map quantity (symbol_trades_spec s (trades zero_group_exchange))) = 0)
        (symbols_spec (trades zero_group_exchange))"
    by (simp add: symbols_spec_def symbol_trades_spec_def zero_group_exchange_def
          Trade_init_def example_stocks)
  have i1: "trades index_exchange \<noteq> []"
    by (simp add: index_exchange_def)
  have i2: "symbols_adjacent (trades index_exchange)"
    by (simp add: symbols_adjacent_def index_exchange_def Trade_init_def example_stocks)
  have i3: "symbols_spec (trades index_exchange) = [''TEA'', ''POP'', ''GIN'', ''JOE'']"
    by (simp add: symbols_spec_def index_exchange_def Trade_init_def example_stocks)
  have i4: "map (\<lambda>s. sum_list (map quantity (symbol_trades_spec s (trades index_exchange))))
              [''TEA'', ''POP'', ''GIN'', ''JOE''] = [15, 50, 25, 25]"
    by (simp add: symbol_trades_spec_def index_exchange_def Trade_init_def example_stocks)
  have i5: "map (\<lambda>s. vwap_spec (symbol_trades_spec s (trades index_exchange)))
              [''TEA'', ''POP'', ''GIN'', ''JOE''] = [100, 35, 110, 250]"
    by (simp add: vwap_spec_def symbol_trades_spec_def index_exchange_def Trade_init_def
          example_stocks)
  have i6: "\<not> list_ex (\<lambda>s. sum_list (map quantity (symbol_trades_spec s (trades index_exchange))) = 0)
               (symbols_spec (trades index_exchange))"
    using i4 by (simp add: i3)
  have i7: "all_share_index_spec (trades index_exchange) = PyNum (96250000 powr (1 / 4))"
    using i1 by (simp add: all_share_index_spec_def i3 i5 [simplified])
  show ?thesis
    using e z1 z2 z3 i1 i2 i3 i5 i6 i7
      all_share_index_adjacent_symbols [of StockExchange_init]
      all_share_index_adjacent_symbols [of zero_group_exchange]
      all_share_index_adjacent_symbols [of index_exchange]
    by simp
qed


end
